theory Spec2Isabelle
  imports Complex_Main "HOL-Library.Multiset"
begin

section \<open>Python values used by the analytics core of monitor.py\<close>

text \<open>
  Prices, slopes and scores are Python numbers; they are modelled as \<^typ>\<open>real\<close>, so
  rounding of binary floating point is not part of the model. A Python \<open>str\<close> is a
  sequence of Unicode code points and is modelled as a list of code points; the labels
  of the source are Chinese text and are written here by their code points.
\<close>

type_synonym ustr = "nat list"

datatype error = ZeroDivisionError | ValueError | IndexError | StatisticsError | KeyError

definition bindE :: "error + 'a \<Rightarrow> ('a \<Rightarrow> error + 'b) \<Rightarrow> error + 'b" where
  "bindE m f = (case m of Inl e \<Rightarrow> Inl e | Inr x \<Rightarrow> f x)"

text \<open>\<open>a / b\<close> raises ZeroDivisionError on a zero divisor.\<close>

definition py_div :: "real \<Rightarrow> real \<Rightarrow> error + real" where
  "py_div a b = (if b = 0 then Inl ZeroDivisionError else Inr (a / b))"

text \<open>\<open>max(xs)\<close> and \<open>min(xs)\<close> raise ValueError on an empty sequence.\<close>

definition py_max :: "real list \<Rightarrow> error + real" where
  "py_max xs = (case xs of [] \<Rightarrow> Inl ValueError | x # r \<Rightarrow> Inr (fold max r x))"

definition py_min :: "real list \<Rightarrow> error + real" where
  "py_min xs = (case xs of [] \<Rightarrow> Inl ValueError | x # r \<Rightarrow> Inr (fold min r x))"

text \<open>\<open>statistics.mean(xs)\<close> raises StatisticsError on an empty sequence.\<close>

definition py_mean :: "real list \<Rightarrow> error + real" where
  "py_mean xs = (if xs = [] then Inl StatisticsError else Inr (sum_list xs / real (length xs)))"

text \<open>\<open>xs[i]\<close>: a negative index counts from the end, out of range raises IndexError.\<close>

definition py_index :: "'a list \<Rightarrow> int \<Rightarrow> error + 'a" where
  "py_index xs i =
     (if 0 \<le> i \<and> i < int (length xs) then Inr (xs ! nat i)
      else if i < 0 \<and> - int (length xs) \<le> i then Inr (xs ! nat (int (length xs) + i))
      else Inl IndexError)"

text \<open>\<open>xs[i:]\<close>: the start is clipped to the sequence, the slice never raises.\<close>

definition py_slice_from :: "'a list \<Rightarrow> int \<Rightarrow> 'a list" where
  "py_slice_from xs i =
     (let n = int (length xs); j = (if i < 0 then max 0 (n + i) else min i n)
      in drop (nat j) xs)"

text \<open>\<open>needle in hay\<close> on strings: some slice of \<open>hay\<close> of the length of \<open>needle\<close>
  equals \<open>needle\<close>.\<close>

fun py_in :: "'a list \<Rightarrow> 'a list \<Rightarrow> bool" where
  "py_in needle [] = (needle = [])"
| "py_in needle (y # ys) = (take (length needle) (y # ys) = needle \<or> py_in needle ys)"

text \<open>\<open>round(x)\<close> with one argument: to the nearest integer, a tie goes to the even one.\<close>

definition py_round :: "real \<Rightarrow> int" where
  "py_round x =
     (let f = \<lfloor>x\<rfloor>; d = x - of_int f
      in if d < 1 / 2 then f
         else if d > 1 / 2 then f + 1
         else if even f then f else f + 1)"

section \<open>Labels\<close>

named_theorems label_defs

text \<open>Trend labels (lines 147, 167--170): insufficient data, flat, strong/mild up/down.\<close>

definition L_insufficient :: ustr where
  [label_defs]: "L_insufficient = [0x6570, 0x636E, 0x4E0D, 0x8DB3]"

definition L_flat :: ustr where
  [label_defs]: "L_flat = [0x6A2A, 0x76D8]"

definition L_strong_up :: ustr where
  [label_defs]: "L_strong_up = [0x5F3A, 0x52BF, 0x4E0A, 0x5347]"

definition L_mild_up :: ustr where
  [label_defs]: "L_mild_up = [0x6E29, 0x548C, 0x4E0A, 0x5347]"

definition L_strong_down :: ustr where
  [label_defs]: "L_strong_down = [0x5F3A, 0x52BF, 0x4E0B, 0x964D]"

definition L_mild_down :: ustr where
  [label_defs]: "L_mild_down = [0x6E29, 0x548C, 0x4E0B, 0x964D]"

text \<open>The tokens searched for in labels: up (line 177), down (179), reversal (237).\<close>

definition L_up :: ustr where
  [label_defs]: "L_up = [0x4E0A, 0x5347]"

definition L_down :: ustr where
  [label_defs]: "L_down = [0x4E0B, 0x964D]"

definition L_reversal :: ustr where
  [label_defs]: "L_reversal = [0x53CD, 0x8F6C]"

text \<open>Pieces of the trend description (lines 176--184): ", trend stable",
  ", short-term accelerating", ", short-term decelerating", ", short-term reversal",
  "mid-term", ", short-term".\<close>

definition L_stable :: ustr where
  [label_defs]: "L_stable = [0xFF0C, 0x8D8B, 0x52BF, 0x7A33, 0x5B9A]"

definition L_accelerating :: ustr where
  [label_defs]: "L_accelerating = [0xFF0C, 0x77ED, 0x671F, 0x52A0, 0x901F]"

definition L_decelerating :: ustr where
  [label_defs]: "L_decelerating = [0xFF0C, 0x77ED, 0x671F, 0x51CF, 0x901F]"

definition L_short_reversal :: ustr where
  [label_defs]: "L_short_reversal = [0xFF0C, 0x77ED, 0x671F, 0x53CD, 0x8F6C]"

definition L_mid_term :: ustr where
  [label_defs]: "L_mid_term = [0x4E2D, 0x671F]"

definition L_short_term :: ustr where
  [label_defs]: "L_short_term = [0xFF0C, 0x77ED, 0x671F]"

section \<open>calculate\_trend\_analysis (lines 144--191)\<close>

record TrendResult =
  short_trend :: ustr
  mid_trend :: ustr
  trend_strength :: real
  trend_description :: ustr
  short_slope :: real
  mid_slope :: real
  prices :: "real list"

text \<open>Line 153: the slope over the last three prices.\<close>

definition short_trend_slope :: "real list \<Rightarrow> error + real" where
  "short_trend_slope ps =
     (let recent_3 = py_slice_from ps (- 3)
      in if length recent_3 = 3
         then bindE (py_index recent_3 (- 1)) (\<lambda>l.
              bindE (py_index recent_3 0) (\<lambda>f. py_div (l - f) 2))
         else Inr 0)"

text \<open>Lines 155--157: the slope over the last \<open>min(7, len(prices))\<close> prices.\<close>

definition mid_trend_slope :: "real list \<Rightarrow> error + real" where
  "mid_trend_slope ps =
     (let mid_window = min 7 (length ps);
          recent_mid = py_slice_from ps (- int mid_window)
      in if length recent_mid \<ge> 2
         then bindE (py_index recent_mid (- 1)) (\<lambda>l.
              bindE (py_index recent_mid 0) (\<lambda>f.
                py_div (l - f) (real (length recent_mid) - 1)))
         else Inr 0)"

text \<open>Line 159.\<close>

definition price_range :: "real list \<Rightarrow> error + real" where
  "price_range ps = bindE (py_max ps) (\<lambda>mx. bindE (py_min ps) (\<lambda>mn. Inr (mx - mn)))"

text \<open>Lines 160--164: the pair (short\_strength, mid\_strength).\<close>

definition strengths :: "real \<Rightarrow> real \<Rightarrow> real \<Rightarrow> error + real \<times> real" where
  "strengths s_slope m_slope rng =
     (if rng > 0
      then bindE (py_div \<bar>s_slope\<bar> rng) (\<lambda>a.
           bindE (py_div \<bar>m_slope\<bar> rng) (\<lambda>b. Inr (a * 100, b * 100)))
      else Inr (0, 0))"

text \<open>Lines 166--170.\<close>

definition get_trend_direction :: "real \<Rightarrow> real \<Rightarrow> ustr" where
  "get_trend_direction slope strength =
     (if strength < 0.5 then L_flat
      else if slope > 0 \<and> strength > 2 then L_strong_up
      else if slope > 0 then L_mild_up
      else if slope < 0 \<and> strength > 2 then L_strong_down
      else L_mild_down)"

text \<open>Lines 175--184.\<close>

definition trend_desc :: "ustr \<Rightarrow> ustr \<Rightarrow> real \<Rightarrow> real \<Rightarrow> ustr" where
  "trend_desc short_direction mid_direction short_strength mid_strength =
     (if short_direction = mid_direction then mid_direction @ L_stable
      else if py_in L_up mid_direction \<and> py_in L_up short_direction
      then (if short_strength > mid_strength then mid_direction @ L_accelerating
            else mid_direction @ L_decelerating)
      else if py_in L_down mid_direction \<and> py_in L_down short_direction
      then (if short_strength > mid_strength then mid_direction @ L_accelerating
            else mid_direction @ L_decelerating)
      else if (py_in L_up mid_direction \<and> py_in L_down short_direction)
            \<or> (py_in L_down mid_direction \<and> py_in L_up short_direction)
      then mid_direction @ L_short_reversal
      else L_mid_term @ mid_direction @ L_short_term @ short_direction)"

definition calculate_trend_analysis :: "real list \<Rightarrow> error + TrendResult" where
  "calculate_trend_analysis ps =
     (if length ps < 3
      then Inr \<lparr>short_trend = L_insufficient, mid_trend = L_insufficient,
                trend_strength = 0, trend_description = L_insufficient,
                short_slope = 0, mid_slope = 0, prices = ps\<rparr>
      else
        bindE (short_trend_slope ps) (\<lambda>s_slope.
        bindE (mid_trend_slope ps) (\<lambda>m_slope.
        bindE (price_range ps) (\<lambda>rng.
        bindE (strengths s_slope m_slope rng) (\<lambda>(short_strength, mid_strength).
          let short_direction = get_trend_direction s_slope short_strength;
              mid_direction = get_trend_direction m_slope mid_strength
          in Inr \<lparr>short_trend = short_direction, mid_trend = mid_direction,
                   trend_strength = (short_strength + mid_strength) / 2,
                   trend_description =
                     trend_desc short_direction mid_direction short_strength mid_strength,
                   short_slope = s_slope, mid_slope = m_slope, prices = ps\<rparr>)))))"

section \<open>calculate\_price\_analysis (lines 193--216)\<close>

record PositionResult =
  avg :: real
  min_price :: real
  max_price :: real
  from_min_points :: real
  from_min_percent :: real
  from_max_points :: real
  from_max_percent :: real
  percentile :: real
  sample_size :: nat

text \<open>Lines 204--208: the pair (from\_min\_percent, from\_max\_percent).\<close>

definition range_percents :: "real \<Rightarrow> real \<Rightarrow> real \<Rightarrow> error + real \<times> real" where
  "range_percents from_min from_max rng =
     (if rng > 0
      then bindE (py_div from_min rng) (\<lambda>a.
           bindE (py_div from_max rng) (\<lambda>b. Inr (a * 100, b * 100)))
      else Inr (0, 0))"

text \<open>Line 209: \<open>sum(1 for p in all_prices if p < current_price)\<close>.\<close>

definition lower_count :: "real \<Rightarrow> real list \<Rightarrow> nat" where
  "lower_count current_price all_prices =
     sum_list (map (\<lambda>p. 1) (filter (\<lambda>p. p < current_price) all_prices))"

definition calculate_price_analysis :: "real \<Rightarrow> real list \<Rightarrow> error + PositionResult" where
  "calculate_price_analysis current_price historical_prices =
     (if historical_prices = []
      then Inr \<lparr>avg = current_price, min_price = current_price, max_price = current_price,
                from_min_points = 0, from_min_percent = 0,
                from_max_points = 0, from_max_percent = 0,
                percentile = 50, sample_size = 0\<rparr>
      else
        let all_prices = historical_prices @ [current_price] in
        bindE (py_mean all_prices) (\<lambda>avg_price.
        bindE (py_min all_prices) (\<lambda>mn.
        bindE (py_max all_prices) (\<lambda>mx.
        bindE (range_percents (current_price - mn) (current_price - mx) (mx - mn))
          (\<lambda>(min_percent, max_percent).
        bindE (py_div (real (lower_count current_price all_prices))
                      (real (length all_prices))) (\<lambda>q.
          Inr \<lparr>avg = avg_price, min_price = mn, max_price = mx,
                from_min_points = current_price - mn, from_min_percent = min_percent,
                from_max_points = current_price - mx, from_max_percent = max_percent,
                percentile = q * 100,
                sample_size = length historical_prices\<rparr>))))))"

section \<open>calculate\_investment\_advice (lines 218--290)\<close>

text \<open>Position levels (lines 219--223): extreme low, low, middle, high, extreme high.\<close>

definition L_extreme_low :: ustr where
  [label_defs]: "L_extreme_low = [0x6781, 0x4F4E, 0x4F4D]"

definition L_low :: ustr where
  [label_defs]: "L_low = [0x4F4E, 0x4F4D]"

definition L_mid :: ustr where
  [label_defs]: "L_mid = [0x4E2D, 0x4F4D]"

definition L_high :: ustr where
  [label_defs]: "L_high = [0x9AD8, 0x4F4D]"

definition L_extreme_high :: ustr where
  [label_defs]: "L_extreme_high = [0x6781, 0x9AD8, 0x4F4D]"

text \<open>Reasons of the extreme-low rows (lines 241--243): falling, rising, flat.\<close>

definition R_xlow_fall :: ustr where
  [label_defs]: "R_xlow_fall = [0x6781, 0x4F4E, 0x4F4D, 0x6DF1, 0x8DCC, 0xFF0C,
     0x5F3A, 0x70C8, 0x4E70, 0x5165, 0x4FE1, 0x53F7]"

definition R_xlow_rise :: ustr where
  [label_defs]: "R_xlow_rise = [0x6781, 0x4F4E, 0x4F4D, 0x53CD, 0x5F39, 0xFF0C,
     0x5F3A, 0x70C8, 0x4E70, 0x5165]"

definition R_xlow_flat :: ustr where
  [label_defs]: "R_xlow_flat = [0x6781, 0x4F4E, 0x4F4D, 0x76D8, 0x6574, 0xFF0C,
     0x5F3A, 0x70C8, 0x4E70, 0x5165]"

text \<open>Reasons of the low rows (lines 245--247).\<close>

definition R_low_fall :: ustr where
  [label_defs]: "R_low_fall = [0x4F4E, 0x4F4D, 0x6DF1, 0x8DCC, 0xFF0C,
     0x6284, 0x5E95, 0x826F, 0x673A]"

definition R_low_rise :: ustr where
  [label_defs]: "R_low_rise = [0x4F4E, 0x4F4D, 0x53CD, 0x5F39, 0xFF0C,
     0x8D8B, 0x52BF, 0x5411, 0x597D]"

definition R_low_flat :: ustr where
  [label_defs]: "R_low_flat = [0x4F4E, 0x4F4D, 0x76D8, 0x6574, 0xFF0C,
     0x53EF, 0x9010, 0x6B65, 0x5EFA, 0x4ED3]"

text \<open>Reasons of the high rows (lines 249--253): rising ("rise at high, hold
  cautiously"), falling with a reversal in the description, falling, flat.\<close>

definition R_high_rise :: ustr where
  [label_defs]: "R_high_rise = [0x9AD8, 0x4F4D, 0x4E0A, 0x6DA8, 0xFF0C,
     0x8C28, 0x614E, 0x6301, 0x6709]"

definition R_high_fall_reversal :: ustr where
  [label_defs]: "R_high_fall_reversal = [0x9AD8, 0x4F4D, 0x56DE, 0x843D, 0x4F46, 0x51FA,
     0x73B0, 0x53CD, 0x8F6C, 0x4FE1, 0x53F7, 0xFF0C, 0x89C2, 0x671B, 0x4E3A, 0x4E3B]"

definition R_high_fall :: ustr where
  [label_defs]: "R_high_fall = [0x9AD8, 0x4F4D, 0x56DE, 0x843D, 0xFF0C,
     0x5EFA, 0x8BAE, 0x51CF, 0x4ED3]"

definition R_high_flat :: ustr where
  [label_defs]: "R_high_flat = [0x9AD8, 0x4F4D, 0x76D8, 0x6574, 0xFF0C,
     0x6CE8, 0x610F, 0x98CE, 0x9669]"

text \<open>Reasons of the extreme-high rows (lines 255--257): rising ("chasing the rise
  at extreme high, very high risk"), falling, flat.\<close>

definition R_xhigh_rise :: ustr where
  [label_defs]: "R_xhigh_rise = [0x6781, 0x9AD8, 0x4F4D, 0x8FFD, 0x6DA8, 0xFF0C,
     0x98CE, 0x9669, 0x6781, 0x5927]"

definition R_xhigh_fall :: ustr where
  [label_defs]: "R_xhigh_fall = [0x6781, 0x9AD8, 0x4F4D, 0x56DE, 0x843D, 0xFF0C,
     0x53CA, 0x65F6, 0x6B62, 0x76C8]"

definition R_xhigh_flat :: ustr where
  [label_defs]: "R_xhigh_flat = [0x6781, 0x9AD8, 0x4F4D, 0x76D8, 0x6574, 0xFF0C,
     0x8B66, 0x60D5, 0x56DE, 0x8C03]"

text \<open>Reasons of the middle rows (line 260): rising, falling ("decline at the middle,
  watch for now"), flat.\<close>

definition R_mid_rise :: ustr where
  [label_defs]: "R_mid_rise = [0x4E2D, 0x4F4D, 0x4E0A, 0x6DA8, 0xFF0C,
     0x53EF, 0x9002, 0x91CF, 0x53C2, 0x4E0E]"

definition R_mid_fall :: ustr where
  [label_defs]: "R_mid_fall = [0x4E2D, 0x4F4D, 0x4E0B, 0x8DCC, 0xFF0C,
     0x6682, 0x65F6, 0x89C2, 0x671B]"

definition R_mid_flat :: ustr where
  [label_defs]: "R_mid_flat = [0x4E2D, 0x4F4D, 0x76D8, 0x6574, 0xFF0C,
     0x7B49, 0x5F85, 0x65B9, 0x5411]"

text \<open>Reasons set by the reversal overrides (lines 264 and 267).\<close>

definition R_up_low :: ustr where
  [label_defs]: "R_up_low = [0x4F4E, 0x4F4D, 0x6B62, 0x8DCC, 0x53CD, 0x5F39, 0xFF0C,
     0x5F3A, 0x70C8, 0x4E70, 0x5165]"

definition R_up_mid :: ustr where
  [label_defs]: "R_up_mid = [0x4E2D, 0x4F4D, 0x6B62, 0x8DCC, 0x53CD, 0x5F39, 0xFF0C,
     0x53EF, 0x9002, 0x91CF, 0x4E70, 0x5165]"

definition R_up_high :: ustr where
  [label_defs]: "R_up_high = [0x9AD8, 0x4F4D, 0x6B62, 0x8DCC, 0x53CD, 0x5F39, 0xFF0C,
     0x8C28, 0x614E, 0x6301, 0x6709, 0xFF0C, 0x53EF, 0x9002, 0x5F53, 0x52A0, 0x4ED3]"

definition R_down_xhigh :: ustr where
  [label_defs]: "R_down_xhigh = [0x6781, 0x9AD8, 0x4F4D, 0x51B2, 0x9AD8, 0x56DE, 0x843D,
     0xFF0C, 0x5F3A, 0x70C8, 0x5356, 0x51FA]"

definition R_down_high :: ustr where
  [label_defs]: "R_down_high = [0x9AD8, 0x4F4D, 0x51B2, 0x9AD8, 0x56DE, 0x843D, 0xFF0C,
     0x5EFA, 0x8BAE, 0x51CF, 0x4ED3]"

definition R_down_midlow :: ustr where
  [label_defs]: "R_down_midlow = [0x4E2D, 0x4F4E, 0x4F4D, 0x51B2, 0x9AD8, 0x56DE, 0x843D,
     0xFF0C, 0x6682, 0x65F6, 0x89C2, 0x671B]"

text \<open>Emoji of the recommendation buckets and of the stars (lines 272--281):
  money bag, eyes, warning sign with variation selector, money with wings, star.\<close>

definition E_bag :: ustr where
  [label_defs]: "E_bag = [0x1F4B0]"

definition E_eyes :: ustr where
  [label_defs]: "E_eyes = [0x1F440]"

definition E_warn :: ustr where
  [label_defs]: "E_warn = [0x26A0, 0xFE0F]"

definition E_wings :: ustr where
  [label_defs]: "E_wings = [0x1F4B8]"

definition E_star :: ustr where
  [label_defs]: "E_star = [0x2B50]"

text \<open>Recommendation texts, without their emoji (lines 272--279): strong buy, buy,
  advise buy, watch and wait, hold cautiously, advise sell, sell, strong sell.\<close>

definition A_strong_buy :: ustr where
  [label_defs]: "A_strong_buy = [0x5F3A, 0x70C8, 0x4E70, 0x5165]"

definition A_buy :: ustr where
  [label_defs]: "A_buy = [0x4E70, 0x5165]"

definition A_advise_buy :: ustr where
  [label_defs]: "A_advise_buy = [0x5EFA, 0x8BAE, 0x4E70, 0x5165]"

definition A_watch :: ustr where
  [label_defs]: "A_watch = [0x89C2, 0x671B, 0x7B49, 0x5F85]"

definition A_hold :: ustr where
  [label_defs]: "A_hold = [0x8C28, 0x614E, 0x6301, 0x6709]"

definition A_advise_sell :: ustr where
  [label_defs]: "A_advise_sell = [0x5EFA, 0x8BAE, 0x5356, 0x51FA]"

definition A_sell :: ustr where
  [label_defs]: "A_sell = [0x5356, 0x51FA]"

definition A_strong_sell :: ustr where
  [label_defs]: "A_strong_sell = [0x5F3A, 0x70C8, 0x5356, 0x51FA]"

text \<open>Action texts (lines 272--279).\<close>

definition X_full_buy :: ustr where
  [label_defs]: "X_full_buy = [0x6EE1, 0x4ED3, 0x4E70, 0x5165]"

definition X_heavy_buy :: ustr where
  [label_defs]: "X_heavy_buy = [0x91CD, 0x4ED3, 0x4E70, 0x5165]"

definition X_some_buy :: ustr where
  [label_defs]: "X_some_buy = [0x9002, 0x91CF, 0x4E70, 0x5165]"

definition X_watch :: ustr where
  [label_defs]: "X_watch = [0x6682, 0x65F6, 0x89C2, 0x671B]"

definition X_hold :: ustr where
  [label_defs]: "X_hold = [0x8C28, 0x614E, 0x6301, 0x6709, 0xFF0C,
     0x53EF, 0x9002, 0x5F53, 0x52A0, 0x4ED3]"

definition X_reduce :: ustr where
  [label_defs]: "X_reduce = [0x5EFA, 0x8BAE, 0x51CF, 0x4ED3]"

definition X_heavy_reduce :: ustr where
  [label_defs]: "X_heavy_reduce = [0x91CD, 0x4ED3, 0x51CF, 0x4ED3]"

definition X_clear :: ustr where
  [label_defs]: "X_clear = [0x6E05, 0x4ED3, 0x79BB, 0x573A]"

text \<open>Confidence labels (line 283): low, medium, high.\<close>

definition C_low :: ustr where
  [label_defs]: "C_low = [0x4F4E]"

definition C_medium :: ustr where
  [label_defs]: "C_medium = [0x4E2D]"

definition C_high :: ustr where
  [label_defs]: "C_high = [0x9AD8]"

record AdvisoryResult =
  advice :: ustr
  advice_emoji :: ustr
  priority_score :: real
  stars :: ustr
  position_level :: ustr
  position_score :: real
  trend_adjustment :: real
  trend_direction :: int
  reason :: ustr
  action_desc :: ustr
  confidence :: ustr

text \<open>Lines 219--223.\<close>

definition position_level_of :: "real \<Rightarrow> ustr" where
  "position_level_of pct =
     (if pct \<le> 15 then L_extreme_low
      else if pct \<le> 35 then L_low
      else if pct \<le> 65 then L_mid
      else if pct \<le> 85 then L_high
      else L_extreme_high)"

text \<open>Lines 231--235.\<close>

definition direction_of :: "ustr \<Rightarrow> int" where
  "direction_of mid =
     (if py_in L_strong_up mid then 2
      else if py_in L_mild_up mid then 1
      else if py_in L_flat mid then 0
      else if py_in L_mild_down mid then - 1
      else - 2)"

text \<open>Lines 237 and 238.\<close>

definition is_reversing_up :: "ustr \<Rightarrow> ustr \<Rightarrow> int \<Rightarrow> bool" where
  "is_reversing_up desc short direction \<longleftrightarrow>
     py_in L_reversal desc \<and> py_in L_up short \<and> direction < 0"

definition is_reversing_down :: "ustr \<Rightarrow> ustr \<Rightarrow> int \<Rightarrow> bool" where
  "is_reversing_down desc short direction \<longleftrightarrow>
     py_in L_reversal desc \<and> py_in L_down short \<and> direction > 0"

text \<open>Lines 240--260: the pair (trend\_adj, reason) before the reversal overrides.\<close>

definition base_adjustment :: "real \<Rightarrow> int \<Rightarrow> ustr \<Rightarrow> real \<times> ustr" where
  "base_adjustment pct direction desc =
     (if pct \<le> 15 then
        (if direction \<le> - 1 then (5.0 + real_of_int \<bar>direction\<bar> * 2.0, R_xlow_fall)
         else if direction \<ge> 1 then (4.5 + real_of_int direction * 1.5, R_xlow_rise)
         else (4.0, R_xlow_flat))
      else if pct \<le> 35 then
        (if direction \<le> - 1 then (4.0 + real_of_int \<bar>direction\<bar> * 1.5, R_low_fall)
         else if direction \<ge> 1 then (3.5 + real_of_int direction * 1.2, R_low_rise)
         else (3.0, R_low_flat))
      else if 65 < pct \<and> pct < 85 then
        (if direction \<ge> 1 then ((if direction = 2 then 2.5 else 2.8), R_high_rise)
         else if direction \<le> - 1 then
           (if py_in L_reversal desc then (1.5, R_high_fall_reversal)
            else (- 1.0 - real_of_int \<bar>direction\<bar> * 0.5, R_high_fall))
         else (1.8, R_high_flat))
      else if pct \<ge> 85 then
        (if direction \<ge> 1 then (- 4.0 - real_of_int direction * 1.0, R_xhigh_rise)
         else if direction \<le> - 1 then
           (- 2.0 - real_of_int \<bar>direction\<bar> * 0.8, R_xhigh_fall)
         else (- 2.0, R_xhigh_flat))
      else
        (real_of_int direction * 1.0,
         if direction \<ge> 1 then R_mid_rise
         else if direction \<le> - 1 then R_mid_fall else R_mid_flat))"

text \<open>Lines 262--267.\<close>

definition reversal_override :: "real \<Rightarrow> bool \<Rightarrow> bool \<Rightarrow> real \<times> ustr \<Rightarrow> real \<times> ustr" where
  "reversal_override pct rev_up rev_down base =
     (if rev_up then
        (fst base + (if pct \<le> 35 then 2.0 else if pct \<le> 65 then 1.5 else 1.0),
         if pct \<le> 35 then R_up_low else if pct \<le> 65 then R_up_mid else R_up_high)
      else if rev_down then
        (fst base - (if pct \<ge> 85 then 2.0 else if pct \<ge> 65 then 1.5 else 0.5),
         if pct \<ge> 85 then R_down_xhigh
         else if pct \<ge> 65 then R_down_high else R_down_midlow)
      else base)"

text \<open>Lines 269 and 270.\<close>

definition final_score_internal :: "real \<Rightarrow> real \<Rightarrow> real" where
  "final_score_internal pos_score trend_adj = max 0 (min 15 (pos_score + trend_adj))"

definition score_display :: "real \<Rightarrow> real" where
  "score_display internal = min 10 (internal * 10 / 15)"

text \<open>Lines 272--279: the triple (advice, emoji, action).\<close>

definition advice_of :: "real \<Rightarrow> ustr \<times> ustr \<times> ustr" where
  "advice_of score =
     (if score \<ge> 8.5 then (E_bag @ E_bag @ E_bag @ A_strong_buy, E_bag @ E_bag @ E_bag, X_full_buy)
      else if score \<ge> 7.0 then (E_bag @ E_bag @ A_buy, E_bag @ E_bag, X_heavy_buy)
      else if score \<ge> 5.5 then (E_bag @ A_advise_buy, E_bag, X_some_buy)
      else if score \<ge> 4.5 then (E_eyes @ A_watch, E_eyes, X_watch)
      else if score \<ge> 3.0 then (E_warn @ A_hold, E_warn, X_hold)
      else if score \<ge> 2.0 then (E_wings @ A_advise_sell, E_wings, X_reduce)
      else if score \<ge> 1.0 then (E_wings @ E_wings @ A_sell, E_wings @ E_wings, X_heavy_reduce)
      else (E_wings @ E_wings @ E_wings @ A_strong_sell, E_wings @ E_wings @ E_wings, X_clear))"

text \<open>Line 281: the number of stars, and the star string of that length.\<close>

definition stars_count :: "real \<Rightarrow> int" where
  "stars_count score = max 1 (min 5 (py_round (score / 2)))"

definition stars_of :: "real \<Rightarrow> ustr" where
  "stars_of score = concat (replicate (nat (stars_count score)) E_star)"

text \<open>Line 283, on the \<open>prices\<close> entry of the trend analysis.\<close>

definition confidence_of :: "real list \<Rightarrow> ustr" where
  "confidence_of ps =
     (if length ps < 5 then C_low else if length ps < 15 then C_medium else C_high)"

definition calculate_investment_advice :: "real \<Rightarrow> TrendResult \<Rightarrow> AdvisoryResult" where
  "calculate_investment_advice pct trend_analysis =
     (let level = position_level_of pct;
          pos_score = 10 - pct / 10;
          mid = mid_trend trend_analysis;
          short = short_trend trend_analysis;
          desc = trend_description trend_analysis;
          direction = direction_of mid;
          rev_up = is_reversing_up desc short direction;
          rev_down = is_reversing_down desc short direction;
          adj = reversal_override pct rev_up rev_down (base_adjustment pct direction desc);
          score = score_display (final_score_internal pos_score (fst adj));
          adv = advice_of score
      in \<lparr>advice = fst adv, advice_emoji = fst (snd adv), priority_score = score,
           stars = stars_of score, position_level = level, position_score = pos_score,
           trend_adjustment = fst adj, trend_direction = direction, reason = snd adj,
           action_desc = snd (snd adv),
           confidence = confidence_of (prices trend_analysis)\<rparr>)"

section \<open>The per-entity pipeline and the ranking of run (lines 419--441)\<close>

text \<open>Lines 427--429.\<close>

definition analyse_entity ::
  "real \<Rightarrow> real list \<Rightarrow> error + PositionResult \<times> TrendResult \<times> AdvisoryResult" where
  "analyse_entity cur hist =
     bindE (calculate_price_analysis cur hist) (\<lambda>pa.
     bindE (calculate_trend_analysis (hist @ [cur])) (\<lambda>trend.
       Inr (pa, trend, calculate_investment_advice (percentile pa) trend)))"

text \<open>Lines 19--25: the tracked entities, and \<open>d[k]\<close> on such a table, which raises
  KeyError on a missing key. The names are Chinese text, written by code points.\<close>

definition COMMERCE_MAP :: "(nat \<times> ustr) list" where
  "COMMERCE_MAP =
     [(1, [0x5730, 0x7CBE, 0x91D1, 0x5E93]),
      (2, [0x53F2, 0x83B1, 0x59C6, 0x4FDD, 0x62A4, 0x534F, 0x4F1A]),
      (3, [0x4F20, 0x8BF4, 0x6B66, 0x5E93]),
      (4, [0x660E, 0x94BB, 0x5546, 0x6237]),
      (5, [0x9B54, 0x9F99, 0x6559, 0x4F1A])]"

definition py_getitem :: "('k \<times> 'v) list \<Rightarrow> 'k \<Rightarrow> error + 'v" where
  "py_getitem d k = (case map_of d k of None \<Rightarrow> Inl KeyError | Some v \<Rightarrow> Inr v)"

text \<open>\<open>sorted(COMMERCE_MAP.keys())\<close>.\<close>

definition sorted_commerce_ids :: "nat list" where
  "sorted_commerce_ids = sort (map fst COMMERCE_MAP)"

record RankEntry =
  entry_name :: ustr
  entry_priority_score :: real

text \<open>Lines 418--434: the loop over the entity ids that fills \<open>commerce_analysis\<close>.
  Each id is visited once, so the insertion order of the dict is the order of the list
  built here. An entity without a current price is skipped, a missing history is
  \<open>[]\<close>.\<close>

fun commerce_analysis ::
  "nat list \<Rightarrow> (nat \<rightharpoonup> real) \<Rightarrow> (nat \<rightharpoonup> real list) \<Rightarrow> error + (nat \<times> RankEntry) list" where
  "commerce_analysis [] commerce_data historical = Inr []"
| "commerce_analysis (cid # cids) commerce_data historical =
     (case commerce_data cid of
        None \<Rightarrow> commerce_analysis cids commerce_data historical
      | Some cur \<Rightarrow>
          bindE (py_getitem COMMERCE_MAP cid) (\<lambda>name.
          bindE (analyse_entity cur (case historical cid of None \<Rightarrow> [] | Some h \<Rightarrow> h))
            (\<lambda>(pa, trend, adv).
          bindE (commerce_analysis cids commerce_data historical) (\<lambda>items.
            Inr ((cid, \<lparr>entry_name = name, entry_priority_score = priority_score adv\<rparr>)
                 # items)))))"

text \<open>\<open>sorted(items, key=..., reverse=True)\<close> is a stable sort under the reversed
  comparison of the keys; on numbers that is the stable sort by the negated key.\<close>

definition py_sorted_reverse :: "('a \<Rightarrow> real) \<Rightarrow> 'a list \<Rightarrow> 'a list" where
  "py_sorted_reverse key xs = sort_key (\<lambda>x. - key x) xs"

text \<open>Lines 438--440, on the items of \<open>commerce_analysis\<close> in insertion order.\<close>

definition ranking :: "(nat \<times> RankEntry) list \<Rightarrow> (nat \<times> RankEntry) list" where
  "ranking items = py_sorted_reverse (\<lambda>x. entry_priority_score (snd x)) items"

text \<open>The ranking of one run, from the fetched prices and the loaded history.\<close>

definition run_ranking ::
  "(nat \<rightharpoonup> real) \<Rightarrow> (nat \<rightharpoonup> real list) \<Rightarrow> error + (nat \<times> RankEntry) list" where
  "run_ranking commerce_data historical =
     bindE (commerce_analysis sorted_commerce_ids commerce_data historical)
       (\<lambda>items. Inr (ranking items))"

section \<open>Facts about the Python operations\<close>

lemma bindE_Inr [simp]: "bindE (Inr x) f = f x"
  by (simp add: bindE_def)

lemma bindE_Inl [simp]: "bindE (Inl e) f = Inl e"
  by (simp add: bindE_def)

lemma py_max_Inr:
  assumes "xs \<noteq> []"
  shows "py_max xs = Inr (Max (set xs))"
proof -
  from assms obtain a r where xs: "xs = a # r"
    by (cases xs) auto
  show ?thesis
    using Max.set_eq_fold [of a r] by (simp add: py_max_def xs)
qed

lemma py_min_Inr:
  assumes "xs \<noteq> []"
  shows "py_min xs = Inr (Min (set xs))"
proof -
  from assms obtain a r where xs: "xs = a # r"
    by (cases xs) auto
  show ?thesis
    using Min.set_eq_fold [of a r] by (simp add: py_min_def xs)
qed

lemma price_range_Inr: "ps \<noteq> [] \<Longrightarrow> price_range ps = Inr (Max (set ps) - Min (set ps))"
  by (simp add: price_range_def py_max_Inr py_min_Inr)

lemma short_trend_slope_Inr:
  "short_trend_slope ps =
     Inr (if length (py_slice_from ps (- 3)) = 3
          then (py_slice_from ps (- 3) ! 2 - py_slice_from ps (- 3) ! 0) / 2 else 0)"
  by (simp add: short_trend_slope_def Let_def py_index_def py_div_def)

lemma short_trend_slope_total: "\<exists>s. short_trend_slope ps = Inr s"
  by (simp add: short_trend_slope_Inr)

lemma mid_trend_slope_total: "\<exists>m. mid_trend_slope ps = Inr m"
proof -
  define r where "r = py_slice_from ps (- int (min 7 (length ps)))"
  show ?thesis
  proof (cases "2 \<le> length r")
    case True
    then have "real (length r) - 1 \<noteq> 0" by simp
    with True show ?thesis
      unfolding mid_trend_slope_def Let_def r_def [symmetric]
      by (auto simp: py_index_def py_div_def Let_def)
  next
    case False
    then show ?thesis
      unfolding mid_trend_slope_def Let_def r_def [symmetric] by simp
  qed
qed

lemma strengths_Inr:
  "strengths s m r = Inr (if r > 0 then (\<bar>s\<bar> / r * 100, \<bar>m\<bar> / r * 100) else (0, 0))"
  by (simp add: strengths_def py_div_def)

lemma range_percents_Inr:
  "range_percents a b r = Inr (if r > 0 then (a / r * 100, b / r * 100) else (0, 0))"
  by (simp add: range_percents_def py_div_def)

lemma calculate_trend_analysis_total:
  "\<exists>t. calculate_trend_analysis ps = Inr t \<and> prices t = ps"
proof (cases "length ps < 3")
  case True
  then show ?thesis by (simp add: calculate_trend_analysis_def)
next
  case False
  then have ne: "ps \<noteq> []" by auto
  obtain s where s: "short_trend_slope ps = Inr s"
    using short_trend_slope_total by blast
  obtain m where m: "mid_trend_slope ps = Inr m"
    using mid_trend_slope_total by blast
  show ?thesis
    using False
    by (simp add: calculate_trend_analysis_def s m price_range_Inr [OF ne] strengths_Inr Let_def
        split: prod.split)
qed

lemma lower_count_length: "lower_count c xs = length (filter (\<lambda>p. p < c) xs)"
  by (simp add: lower_count_def sum_list_map_filter' sum_list_triv flip: length_filter_conv_card) 


lemma calculate_price_analysis_empty:
  "calculate_price_analysis cur [] =
     Inr \<lparr>avg = cur, min_price = cur, max_price = cur,
           from_min_points = 0, from_min_percent = 0,
           from_max_points = 0, from_max_percent = 0,
           percentile = 50, sample_size = 0\<rparr>"
  by (simp add: calculate_price_analysis_def)

lemma calculate_price_analysis_nonempty:
  assumes "hist \<noteq> []"
  shows "\<exists>r. calculate_price_analysis cur hist = Inr r
    \<and> from_min_percent r =
        (if Max (set (hist @ [cur])) - Min (set (hist @ [cur])) > 0
         then (cur - Min (set (hist @ [cur])))
              / (Max (set (hist @ [cur])) - Min (set (hist @ [cur]))) * 100
         else 0)
    \<and> from_max_percent r =
        (if Max (set (hist @ [cur])) - Min (set (hist @ [cur])) > 0
         then (cur - Max (set (hist @ [cur])))
              / (Max (set (hist @ [cur])) - Min (set (hist @ [cur]))) * 100
         else 0)
    \<and> percentile r =
        real (length (filter (\<lambda>p. p < cur) (hist @ [cur]))) / real (length hist + 1) * 100
    \<and> sample_size r = length hist"
proof -
  have ne: "hist @ [cur] \<noteq> []" by simp
  have len: "real (length (hist @ [cur])) \<noteq> 0" by simp
  show ?thesis
    using assms len
    by (simp add: calculate_price_analysis_def Let_def py_mean_def py_max_Inr [OF ne]
        py_min_Inr [OF ne] range_percents_Inr py_div_def lower_count_length
        del: set_append split: prod.split)
qed

lemma calculate_price_analysis_total: "\<exists>r. calculate_price_analysis cur hist = Inr r"
proof (cases "hist = []")
  case True
  then show ?thesis by (simp add: calculate_price_analysis_empty)
next
  case False
  then show ?thesis using calculate_price_analysis_nonempty [of hist cur] by blast
qed

lemma analyse_entity_total:
  "\<exists>pa tr adv. analyse_entity cur hist = Inr (pa, tr, adv)
     \<and> calculate_price_analysis cur hist = Inr pa
     \<and> calculate_trend_analysis (hist @ [cur]) = Inr tr
     \<and> prices tr = hist @ [cur]
     \<and> adv = calculate_investment_advice (percentile pa) tr"
proof -
  obtain pa where pa: "calculate_price_analysis cur hist = Inr pa"
    using calculate_price_analysis_total by blast
  obtain tr where tr: "calculate_trend_analysis (hist @ [cur]) = Inr tr"
    and pr: "prices tr = hist @ [cur]"
    using calculate_trend_analysis_total by blast
  show ?thesis by (simp add: analyse_entity_def pa tr pr)
qed


section \<open>The fields of the advisory result\<close>

lemma advice_trend_direction:
  "trend_direction (calculate_investment_advice p t) = direction_of (mid_trend t)"
  by (simp add: calculate_investment_advice_def Let_def)

lemma advice_position_score:
  "position_score (calculate_investment_advice p t) = 10 - p / 10"
  by (simp add: calculate_investment_advice_def Let_def)

lemma advice_position_level:
  "position_level (calculate_investment_advice p t) = position_level_of p"
  by (simp add: calculate_investment_advice_def Let_def)

lemma advice_trend_adjustment:
  "trend_adjustment (calculate_investment_advice p t) =
     fst (reversal_override p
       (is_reversing_up (trend_description t) (short_trend t) (direction_of (mid_trend t)))
       (is_reversing_down (trend_description t) (short_trend t) (direction_of (mid_trend t)))
       (base_adjustment p (direction_of (mid_trend t)) (trend_description t)))"
  by (simp add: calculate_investment_advice_def Let_def)

lemma advice_reason:
  "reason (calculate_investment_advice p t) =
     snd (reversal_override p
       (is_reversing_up (trend_description t) (short_trend t) (direction_of (mid_trend t)))
       (is_reversing_down (trend_description t) (short_trend t) (direction_of (mid_trend t)))
       (base_adjustment p (direction_of (mid_trend t)) (trend_description t)))"
  by (simp add: calculate_investment_advice_def Let_def)

lemma advice_priority_score:
  "priority_score (calculate_investment_advice p t) =
     score_display (final_score_internal
       (position_score (calculate_investment_advice p t))
       (trend_adjustment (calculate_investment_advice p t)))"
  by (simp add: calculate_investment_advice_def Let_def)

lemma advice_advice:
  "advice (calculate_investment_advice p t) =
     fst (advice_of (priority_score (calculate_investment_advice p t)))"
  by (simp add: calculate_investment_advice_def Let_def)

lemma advice_action_desc:
  "action_desc (calculate_investment_advice p t) =
     snd (snd (advice_of (priority_score (calculate_investment_advice p t))))"
  by (simp add: calculate_investment_advice_def Let_def)

lemma advice_stars:
  "stars (calculate_investment_advice p t) =
     stars_of (priority_score (calculate_investment_advice p t))"
  by (simp add: calculate_investment_advice_def Let_def)

lemma advice_confidence:
  "confidence (calculate_investment_advice p t) = confidence_of (prices t)"
  by (simp add: calculate_investment_advice_def Let_def)

lemma direction_of_insufficient: "direction_of L_insufficient = - 2"
  by (simp add: direction_of_def label_defs)

lemma no_reversal_in_insufficient: "\<not> py_in L_reversal L_insufficient"
  by (simp add: label_defs)

lemma score_display_range: "0 \<le> x \<Longrightarrow> x \<le> 15 \<Longrightarrow> score_display x = x * 10 / 15"
  by (simp add: score_display_def)

lemma final_score_internal_range:
  "0 \<le> final_score_internal a b \<and> final_score_internal a b \<le> 15"
  by (simp add: final_score_internal_def)

lemma direction_of_values: "direction_of m \<in> {- 2, - 1, 0, 1, 2}"
  by (simp add: direction_of_def)

lemma direction_of_mild_up: "direction_of L_mild_up = 1"
  by (simp add: direction_of_def label_defs)

lemma direction_of_strong_up: "direction_of L_strong_up = 2"
  by (simp add: direction_of_def label_defs)

lemma base_adjustment_mid_fall: "base_adjustment 50 (- 2) d = (- 2, R_mid_fall)"
  by (simp add: base_adjustment_def)

lemma py_round_mono:
  assumes "x \<le> y"
  shows "py_round x \<le> py_round y"
proof -
  have fl: "\<lfloor>x\<rfloor> \<le> \<lfloor>y\<rfloor>" using assms by (rule floor_mono)
  show ?thesis
  proof (cases "\<lfloor>x\<rfloor> = \<lfloor>y\<rfloor>")
    case True
    with assms have "x - of_int \<lfloor>x\<rfloor> \<le> y - of_int \<lfloor>y\<rfloor>" by simp
    then show ?thesis using True by (auto simp: py_round_def Let_def)
  next
    case False
    with fl have "\<lfloor>x\<rfloor> + 1 \<le> \<lfloor>y\<rfloor>" by simp
    then show ?thesis by (auto simp: py_round_def Let_def)
  qed
qed


lemma insufficient_direction:
  "mid_trend t = L_insufficient \<Longrightarrow>
     trend_direction (calculate_investment_advice p t) = - 2"
  by (simp add: advice_trend_direction direction_of_insufficient)

section \<open>The ranking\<close>

lemma sorted_commerce_ids_eq: "sorted_commerce_ids = [1, 2, 3, 4, 5]"
  by (simp add: sorted_commerce_ids_def COMMERCE_MAP_def)

lemma py_getitem_total: "k \<in> fst ` set d \<Longrightarrow> \<exists>v. py_getitem d k = Inr v"
  by (cases "map_of d k") (auto simp: py_getitem_def map_of_eq_None_iff)

lemma commerce_analysis_total:
  "set ids \<subseteq> fst ` set COMMERCE_MAP \<Longrightarrow>
     \<exists>items. commerce_analysis ids cd h = Inr items
       \<and> map fst items = filter (\<lambda>c. cd c \<noteq> None) ids"
proof (induction ids)
  case Nil
  then show ?case by simp
next
  case (Cons cid ids)
  then obtain items where it: "commerce_analysis ids cd h = Inr items"
    and ks: "map fst items = filter (\<lambda>c. cd c \<noteq> None) ids"
    by auto
  show ?case
  proof (cases "cd cid")
    case None
    then show ?thesis by (simp add: it ks)
  next
    case (Some cur)
    from Cons.prems obtain name where nm: "py_getitem COMMERCE_MAP cid = Inr name"
      using py_getitem_total [of cid COMMERCE_MAP] by auto
    obtain pa tr adv where
      e: "analyse_entity cur (case h cid of None \<Rightarrow> [] | Some x \<Rightarrow> x) = Inr (pa, tr, adv)"
      using analyse_entity_total by blast
    show ?thesis by (simp add: Some nm e it ks)
  qed
qed

lemma ranking_sorted:
  "sorted_wrt (\<lambda>a b. entry_priority_score (snd a) \<ge> entry_priority_score (snd b))
     (ranking items)"
proof -
  have "sorted (map (\<lambda>x. - entry_priority_score (snd x)) (ranking items))"
    unfolding ranking_def py_sorted_reverse_def by (rule sorted_sort_key)
  then show ?thesis by (simp add: sorted_map)
qed

lemma ranking_mset: "mset (ranking items) = mset items"
  by (simp add: ranking_def py_sorted_reverse_def)

lemma ranking_stable:
  "filter (\<lambda>x. entry_priority_score (snd x) = k) (ranking items)
     = filter (\<lambda>x. entry_priority_score (snd x) = k) items"
  using sort_key_stable [of "\<lambda>x. - entry_priority_score (snd x)" "- k" items]
  by (simp add: ranking_def py_sorted_reverse_def)


section \<open>Worked examples\<close>

text \<open>An entity with the history \<open>[3, 3]\<close> and the current price 1, entities without
  history, and the ranking of a run over three entities: the entity with the score 10
  comes first, the two entities with the score 2 follow in the order of their ids.\<close>

lemma trend_analysis_example: "calculate_trend_analysis [3, 3, 1] =
  Inr \<lparr>short_trend = L_strong_down, mid_trend = L_strong_down, trend_strength = 50,
    trend_description = L_strong_down @ L_stable, short_slope = - 1, mid_slope = - 1,
    prices = [3, 3, 1]\<rparr>"
  by (simp add: calculate_trend_analysis_def short_trend_slope_def mid_trend_slope_def
      py_slice_from_def py_index_def py_div_def price_range_def py_max_def py_min_def
      strengths_def get_trend_direction_def trend_desc_def Let_def)

lemma price_analysis_example: "calculate_price_analysis 1 [3, 3] =
   Inr \<lparr>avg = 7 / 3, min_price = 1, max_price = 3,
         from_min_points = 0, from_min_percent = 0,
         from_max_points = - 2, from_max_percent = - 100,
         percentile = 0, sample_size = 2\<rparr>"
  by (simp add: calculate_price_analysis_def Let_def py_mean_def py_min_def py_max_def
      range_percents_Inr py_div_def lower_count_def)

lemma advice_score_example: "priority_score (calculate_investment_advice 0
   \<lparr>short_trend = L_strong_down, mid_trend = L_strong_down, trend_strength = 50,
    trend_description = L_strong_down @ L_stable, short_slope = - 1, mid_slope = - 1,
    prices = [3, 3, 1]\<rparr>) = 10"
proof -
  have d: "direction_of L_strong_down = - 2"
    by (simp add: direction_of_def label_defs)
  have nr: "\<not> py_in L_reversal (L_strong_down @ L_stable)"
    by (simp add: label_defs)
  have b: "base_adjustment 0 (- 2) (L_strong_down @ L_stable) = (9, R_xlow_fall)"
    by (simp add: base_adjustment_def)
  show ?thesis
    by (simp add: advice_priority_score advice_position_score advice_trend_adjustment d nr b
        is_reversing_up_def is_reversing_down_def reversal_override_def
        final_score_internal_def score_display_def)
qed


lemma advice_score_no_history:
  "priority_score (calculate_investment_advice 50
     \<lparr>short_trend = L_insufficient, mid_trend = L_insufficient,
       trend_strength = 0, trend_description = L_insufficient,
       short_slope = 0, mid_slope = 0, prices = ps\<rparr>) = 2"
  by (simp add: advice_priority_score advice_position_score advice_trend_adjustment
      direction_of_insufficient no_reversal_in_insufficient base_adjustment_mid_fall
      is_reversing_up_def is_reversing_down_def reversal_override_def
      final_score_internal_def score_display_def)

lemma analyse_entity_no_history:
  "\<exists>pa tr adv. analyse_entity cur [] = Inr (pa, tr, adv) \<and> priority_score adv = 2"
  by (simp add: analyse_entity_def calculate_price_analysis_empty
      calculate_trend_analysis_def advice_score_no_history)

lemma analyse_entity_example:
  "\<exists>pa tr adv. analyse_entity 1 [3, 3] = Inr (pa, tr, adv) \<and> priority_score adv = 10"
  using trend_analysis_example by (simp add: analyse_entity_def price_analysis_example advice_score_example)

lemma run_ranking_example:
  "run_ranking (map_of [(1, 5), (2, 7), (3, 1)]) (map_of [(3, [3, 3])]) =
     Inr [(3, \<lparr>entry_name = [0x4F20, 0x8BF4, 0x6B66, 0x5E93], entry_priority_score = 10\<rparr>),
          (1, \<lparr>entry_name = [0x5730, 0x7CBE, 0x91D1, 0x5E93], entry_priority_score = 2\<rparr>),
          (2, \<lparr>entry_name = [0x53F2, 0x83B1, 0x59C6, 0x4FDD, 0x62A4, 0x534F, 0x4F1A],
               entry_priority_score = 2\<rparr>)]"
proof -
  obtain pa1 tr1 adv1 where e1: "analyse_entity 5 [] = Inr (pa1, tr1, adv1)"
    and s1: "priority_score adv1 = 2"
    using analyse_entity_no_history [of 5] by blast
  obtain pa2 tr2 adv2 where e2: "analyse_entity 7 [] = Inr (pa2, tr2, adv2)"
    and s2: "priority_score adv2 = 2"
    using analyse_entity_no_history [of 7] by blast
  obtain pa3 tr3 adv3 where e3: "analyse_entity 1 [3, 3] = Inr (pa3, tr3, adv3)"
    and s3: "priority_score adv3 = 10"
    using analyse_entity_example by blast
  have "commerce_analysis sorted_commerce_ids
          (map_of [(1, 5), (2, 7), (3, 1)]) (map_of [(3, [3, 3])]) =
     Inr [(1, \<lparr>entry_name = [0x5730, 0x7CBE, 0x91D1, 0x5E93], entry_priority_score = 2\<rparr>),
          (2, \<lparr>entry_name = [0x53F2, 0x83B1, 0x59C6, 0x4FDD, 0x62A4, 0x534F, 0x4F1A],
               entry_priority_score = 2\<rparr>),
          (3, \<lparr>entry_name = [0x4F20, 0x8BF4, 0x6B66, 0x5E93], entry_priority_score = 10\<rparr>)]"
    by (simp add: sorted_commerce_ids_eq py_getitem_def COMMERCE_MAP_def e1 e2 e3 s1 s2 s3)
  then show ?thesis
    by (simp add: run_ranking_def ranking_def py_sorted_reverse_def)
qed

section \<open>The claims\<close>

text \<open>
  C1 says that a trend result whose \<open>mid_trend\<close> is the insufficient-data label gets the
  direction code 0. The chain of lines 231--235 tests the four labels strong up, mild
  up, flat and mild down and gives \<open>- 2\<close> to everything else, so the label of a history
  shorter than three points gets the code of a strong decline. Evaluated on the
  one-point series \<open>[5]\<close> and the percentile 50: the direction code is \<open>- 2\<close>, not 0.
\<close>

theorem sentinel_direction_is_strong_down:
  "calculate_trend_analysis [5] =
     Inr \<lparr>short_trend = L_insufficient, mid_trend = L_insufficient,
           trend_strength = 0, trend_description = L_insufficient,
           short_slope = 0, mid_slope = 0, prices = [5]\<rparr>
   \<and> trend_direction (calculate_investment_advice 50
       \<lparr>short_trend = L_insufficient, mid_trend = L_insufficient,
         trend_strength = 0, trend_description = L_insufficient,
         short_slope = 0, mid_slope = 0, prices = [5]\<rparr>) = - 2"
  by (simp add: calculate_trend_analysis_def advice_trend_direction
      direction_of_insufficient)

text \<open>
  C2 as stated (a current price above every price of a non-empty history has
  percentile 100) fails: with the history \<open>[1]\<close> and the current price 2 the percentile
  is 50, since the current price is counted in the denominator.
\<close>

theorem new_maximum_percentile_counterexample:
  "calculate_price_analysis 2 [1] =
     Inr \<lparr>avg = 3 / 2, min_price = 1, max_price = 2,
           from_min_points = 1, from_min_percent = 100,
           from_max_points = 0, from_max_percent = 0,
           percentile = 50, sample_size = 1\<rparr>
   \<and> percentile (projr (calculate_price_analysis 2 [1])) \<noteq> 100"
  by (simp add: calculate_price_analysis_def Let_def py_mean_def py_min_def py_max_def
      range_percents_Inr py_div_def lower_count_def)


text \<open>
  C2, amended: for a non-empty history of \<open>n\<close> prices and a current price strictly above
  all of them, the position analysis returns a result whose percentile is
  \<open>n / (n + 1) * 100\<close>; it is at least 50 and strictly below 100.
\<close>

theorem new_maximum_percentile:
  assumes "hist \<noteq> []" and "\<forall>h \<in> set hist. h < cur"
  shows "\<exists>r. calculate_price_analysis cur hist = Inr r
    \<and> percentile r = real (length hist) / real (length hist + 1) * 100
    \<and> 50 \<le> percentile r \<and> percentile r < 100"
proof -
  obtain r where r: "calculate_price_analysis cur hist = Inr r"
    and p: "percentile r =
        real (length (filter (\<lambda>p. p < cur) (hist @ [cur]))) / real (length hist + 1) * 100"
    using calculate_price_analysis_nonempty [OF assms(1), of cur] by blast
  have f: "filter (\<lambda>p. p < cur) (hist @ [cur]) = hist"
    using assms(2) by simp
  define k where "k = real (length hist) / real (length hist + 1)"
  have e: "percentile r = k * 100"
    using p by (simp only: f k_def)
  have n: "1 \<le> length hist" using assms(1) by (cases hist) simp_all
  have lt: "k < 1"
    by (simp add: k_def)
  have ge: "1 / 2 \<le> k"
    using n by (simp add: k_def field_simps)
  have "50 \<le> percentile r" "percentile r < 100"
    using e lt ge by simp_all
  with r e show ?thesis unfolding k_def by blast
qed


theorem new_maximum_percentile_witness:
  "[1, 2, 3, 4, 5, 6, 7] \<noteq> ([] :: real list)
   \<and> list_all (\<lambda>h. h < (8::real)) [1, 2, 3, 4, 5, 6, 7]
   \<and> (\<exists>r. calculate_price_analysis 8 [1, 2, 3, 4, 5, 6, 7] = Inr r \<and> percentile r = 87.5)"
  using new_maximum_percentile [of "[1, 2, 3, 4, 5, 6, 7]" 8] by auto


text \<open>
  C3: for every percentile and every trend result the priority score lies in
  \<open>[0, 10]\<close>, and it is the sum of position score and trend adjustment, clamped to
  \<open>[0, 15]\<close> and multiplied by \<open>10 / 15\<close>. This holds for all percentiles, in particular
  for those in \<open>[0, 100]\<close>.
\<close>

theorem priority_score_range: "0 \<le> priority_score (calculate_investment_advice p t)
  \<and> priority_score (calculate_investment_advice p t) \<le> 10
  \<and> priority_score (calculate_investment_advice p t) =
      max 0 (min 15 (position_score (calculate_investment_advice p t)
                     + trend_adjustment (calculate_investment_advice p t))) * 10 / 15"
proof -
  define x where "x = final_score_internal (position_score (calculate_investment_advice p t))
     (trend_adjustment (calculate_investment_advice p t))"
  have r: "0 \<le> x" "x \<le> 15"
    using final_score_internal_range by (simp_all add: x_def)
  have e: "priority_score (calculate_investment_advice p t) = x * 10 / 15"
    using r by (simp add: advice_priority_score x_def [symmetric] score_display_range)
  have xeq: "x = max 0 (min 15 (position_score (calculate_investment_advice p t)
                     + trend_adjustment (calculate_investment_advice p t)))"
    by (simp add: x_def final_score_internal_def)
  have p0: "0 \<le> priority_score (calculate_investment_advice p t)"
    unfolding e using r by simp
  have p1: "priority_score (calculate_investment_advice p t) \<le> 10"
    unfolding e using r by simp
  have p2: "priority_score (calculate_investment_advice p t) =
      max 0 (min 15 (position_score (calculate_investment_advice p t)
                     + trend_adjustment (calculate_investment_advice p t))) * 10 / 15"
    unfolding e xeq ..
  from p0 p1 p2 show ?thesis by blast
qed


text \<open>
  C4 as stated (fewer than 5 historical points give low confidence) fails: with four
  historical prices the pipeline of \<open>run\<close> returns medium confidence, since line 283
  counts the series handed to the trend analysis, which ends with the current price.
\<close>

theorem confidence_counterexample: "\<not> isl (analyse_entity 1 [1, 1, 1, 1])
   \<and> confidence (snd (snd (projr (analyse_entity 1 [1, 1, 1, 1])))) = C_medium
   \<and> C_medium \<noteq> C_low"
proof -
  obtain pa tr adv where e: "analyse_entity 1 [1, 1, 1, 1] = Inr (pa, tr, adv)"
    and pr: "prices tr = [1, 1, 1, 1] @ [1]"
    and adv: "adv = calculate_investment_advice (percentile pa) tr"
    using analyse_entity_total [of 1 "[1, 1, 1, 1]"] by blast
  have "confidence adv = C_medium"
    by (simp add: adv advice_confidence pr confidence_of_def)
  then show ?thesis by (simp add: e label_defs)
qed


text \<open>
  C4, amended: for every current price and history the pipeline returns a result, the
  series recorded in the trend result is the history followed by the current price,
  and the confidence is decided by the length of that series: fewer than 4 historical
  points give low, 4 to 13 give medium, 14 or more give high.
\<close>

theorem confidence_by_series_length:
  "\<exists>pa tr adv. analyse_entity cur hist = Inr (pa, tr, adv)
     \<and> prices tr = hist @ [cur]
     \<and> confidence adv =
         (if length hist < 4 then C_low
          else if length hist < 14 then C_medium else C_high)"
proof -
  obtain pa tr adv where e: "analyse_entity cur hist = Inr (pa, tr, adv)"
    and pr: "prices tr = hist @ [cur]"
    and adv: "adv = calculate_investment_advice (percentile pa) tr"
    using analyse_entity_total [of cur hist] by blast
  have "confidence adv = confidence_of (hist @ [cur])"
    by (simp add: adv advice_confidence pr)
  then have "confidence adv =
         (if length hist < 4 then C_low
          else if length hist < 14 then C_medium else C_high)"
    by (simp add: confidence_of_def)
  with e pr show ?thesis by blast
qed

text \<open>
  C5 as stated (at percentile 85 a rising trend gets the adjustment 2.5 or 2.8 of the
  high row) fails: the high row of the table is guarded by \<open>65 < percentile < 85\<close> and the
  extreme-high row by \<open>percentile \<ge> 85\<close>. At 85 with a mild rise the adjustment is \<open>- 5\<close>
  with the extreme-high reason, although the position level of lines 219--223 is high.
\<close>

theorem percentile_85_counterexample:
  "trend_adjustment (calculate_investment_advice 85
      \<lparr>short_trend = L_mild_up, mid_trend = L_mild_up, trend_strength = 1,
        trend_description = L_mild_up @ L_stable, short_slope = 1, mid_slope = 1,
        prices = [1, 2, 3]\<rparr>) = - 5
   \<and> reason (calculate_investment_advice 85
      \<lparr>short_trend = L_mild_up, mid_trend = L_mild_up, trend_strength = 1,
        trend_description = L_mild_up @ L_stable, short_slope = 1, mid_slope = 1,
        prices = [1, 2, 3]\<rparr>) = R_xhigh_rise
   \<and> position_level (calculate_investment_advice 85
      \<lparr>short_trend = L_mild_up, mid_trend = L_mild_up, trend_strength = 1,
        trend_description = L_mild_up @ L_stable, short_slope = 1, mid_slope = 1,
        prices = [1, 2, 3]\<rparr>) = L_high
   \<and> R_xhigh_rise \<noteq> R_high_rise"
proof -
  have nd: "\<not> is_reversing_down (L_mild_up @ L_stable) L_mild_up 1"
    by (simp add: is_reversing_down_def label_defs)
  have nu: "\<not> is_reversing_up (L_mild_up @ L_stable) L_mild_up 1"
    by (simp add: is_reversing_up_def)
  have b: "base_adjustment 85 1 (L_mild_up @ L_stable) = (- 5, R_xhigh_rise)"
    by (simp add: base_adjustment_def)
  have ne: "R_xhigh_rise \<noteq> R_high_rise" by (simp add: label_defs)
  show ?thesis
    by (simp add: advice_trend_adjustment advice_reason advice_position_level
        direction_of_mild_up nd nu b reversal_override_def ne position_level_of_def)
qed


text \<open>
  C5, amended: with direction code \<open>d \<ge> 1\<close> and no reversal flag, at percentile exactly
  85 the table takes its extreme-high row, adjustment \<open>- 4 - d\<close> (\<open>- 6\<close> for \<open>d = 2\<close>, \<open>- 5\<close>
  for \<open>d = 1\<close>) with the extreme-high reason; the adjustment 2.5 for \<open>d = 2\<close> and 2.8
  otherwise, with the high reason, is taken for percentiles strictly between 65 and
  85. The reversing-up flag needs \<open>d < 0\<close> and is off by the first hypothesis.
\<close>

theorem rising_adjustment_at_85:
  assumes d: "1 \<le> direction_of (mid_trend t)"
    and nd: "\<not> is_reversing_down (trend_description t) (short_trend t) (direction_of (mid_trend t))"
    and q: "65 < q" "q < 85"
  shows "trend_adjustment (calculate_investment_advice 85 t)
           = - 4 - real_of_int (direction_of (mid_trend t))
    \<and> reason (calculate_investment_advice 85 t) = R_xhigh_rise
    \<and> trend_adjustment (calculate_investment_advice q t)
           = (if direction_of (mid_trend t) = 2 then 2.5 else 2.8)
    \<and> reason (calculate_investment_advice q t) = R_high_rise"
proof -
  have nu: "\<not> is_reversing_up (trend_description t) (short_trend t) (direction_of (mid_trend t))"
    using d by (simp add: is_reversing_up_def)
  have b85: "base_adjustment 85 (direction_of (mid_trend t)) (trend_description t)
      = (- 4 - real_of_int (direction_of (mid_trend t)), R_xhigh_rise)"
    using d by (simp add: base_adjustment_def)
  have bq: "base_adjustment q (direction_of (mid_trend t)) (trend_description t)
      = ((if direction_of (mid_trend t) = 2 then 2.5 else 2.8), R_high_rise)"
    using d q by (simp add: base_adjustment_def)
  show ?thesis
    by (simp add: advice_trend_adjustment advice_reason nu nd reversal_override_def b85 bq)
qed


theorem rising_adjustment_at_85_witness:
  "1 \<le> direction_of (mid_trend \<lparr>short_trend = L_strong_up, mid_trend = L_strong_up, trend_strength = 3,
        trend_description = L_strong_up @ L_stable, short_slope = 1, mid_slope = 1,
        prices = [1, 2, 3]\<rparr>)
  \<and> \<not> is_reversing_down (L_strong_up @ L_stable) L_strong_up 2 \<and> (65::real) < 70 \<and> (70::real) < 85
  \<and> trend_adjustment (calculate_investment_advice 85 \<lparr>short_trend = L_strong_up, mid_trend = L_strong_up, trend_strength = 3,
        trend_description = L_strong_up @ L_stable, short_slope = 1, mid_slope = 1,
        prices = [1, 2, 3]\<rparr>) = - 6
  \<and> trend_adjustment (calculate_investment_advice 70 \<lparr>short_trend = L_strong_up, mid_trend = L_strong_up, trend_strength = 3,
        trend_description = L_strong_up @ L_stable, short_slope = 1, mid_slope = 1,
        prices = [1, 2, 3]\<rparr>) = 2.5"
proof -
  have nd: "\<not> is_reversing_down (L_strong_up @ L_stable) L_strong_up 2"
    by (simp add: is_reversing_down_def label_defs)
  show ?thesis
    using rising_adjustment_at_85 [of "\<lparr>short_trend = L_strong_up, mid_trend = L_strong_up, trend_strength = 3,
        trend_description = L_strong_up @ L_stable, short_slope = 1, mid_slope = 1,
        prices = [1, 2, 3]\<rparr>" 70] nd
    by (simp add: direction_of_strong_up)
qed


text \<open>
  C6: for every price sequence shorter than 3 the trend analysis returns, without
  raising, the result whose short trend, mid trend and description are the
  insufficient-data label and whose strength and slopes are 0.
\<close>

theorem short_series_sentinel: "length ps < 3 \<Longrightarrow> calculate_trend_analysis ps =
   Inr \<lparr>short_trend = L_insufficient, mid_trend = L_insufficient,
                trend_strength = 0, trend_description = L_insufficient,
                short_slope = 0, mid_slope = 0, prices = ps\<rparr>"
  by (simp add: calculate_trend_analysis_def)


theorem short_series_sentinel_witness:
  "length [1, 2 :: real] < 3 \<and> calculate_trend_analysis [1, 2] =
     Inr \<lparr>short_trend = L_insufficient, mid_trend = L_insufficient,
           trend_strength = 0, trend_description = L_insufficient,
           short_slope = 0, mid_slope = 0, prices = [1, 2]\<rparr>"
  using short_series_sentinel [of "[1, 2]"] by simp

text \<open>
  C7: when the range \<open>max - min\<close> of the history with the current price is 0, both
  analyses return a result (no division by zero): the two percentages of the position
  result are 0, the two slopes are computed, the pair of short and mid strength
  computed from them at range 0 is \<open>(0, 0)\<close>, the strength of the trend result is 0, and
  both of its trends are flat (or the insufficient-data label below three prices).
\<close>

theorem flat_history_percentages:
  assumes "price_range (hist @ [cur]) = Inr 0"
  shows "\<exists>pa tr s m. calculate_price_analysis cur hist = Inr pa
    \<and> from_min_percent pa = 0 \<and> from_max_percent pa = 0
    \<and> calculate_trend_analysis (hist @ [cur]) = Inr tr \<and> trend_strength tr = 0
    \<and> short_trend tr = (if length hist < 2 then L_insufficient else L_flat)
    \<and> mid_trend tr = (if length hist < 2 then L_insufficient else L_flat)
    \<and> short_trend_slope (hist @ [cur]) = Inr s \<and> mid_trend_slope (hist @ [cur]) = Inr m
    \<and> strengths s m 0 = Inr (0, 0)"
proof -
  have ne: "hist @ [cur] \<noteq> []" by simp
  have rng: "Max (set (hist @ [cur])) - Min (set (hist @ [cur])) = 0"
    using assms unfolding price_range_Inr [OF ne] by simp
  have pos: "\<exists>pa. calculate_price_analysis cur hist = Inr pa
    \<and> from_min_percent pa = 0 \<and> from_max_percent pa = 0"
  proof (cases "hist = []")
    case True
    then show ?thesis by (simp add: calculate_price_analysis_empty)
  next
    case False
    from calculate_price_analysis_nonempty [OF False, of cur] rng
    show ?thesis by (auto simp del: set_append)
  qed
  obtain s where s: "short_trend_slope (hist @ [cur]) = Inr s"
    using short_trend_slope_total by blast
  obtain m where m: "mid_trend_slope (hist @ [cur]) = Inr m"
    using mid_trend_slope_total by blast
  have st: "strengths s m 0 = Inr (0, 0)"
    by (simp add: strengths_Inr)
  have tr: "\<exists>tr. calculate_trend_analysis (hist @ [cur]) = Inr tr \<and> trend_strength tr = 0
    \<and> short_trend tr = (if length hist < 2 then L_insufficient else L_flat)
    \<and> mid_trend tr = (if length hist < 2 then L_insufficient else L_flat)"
  proof (cases "length (hist @ [cur]) < 3")
    case True
    then show ?thesis
      unfolding calculate_trend_analysis_def by simp
  next
    case False
    then show ?thesis
      unfolding calculate_trend_analysis_def s m assms
      by (simp add: st Let_def get_trend_direction_def)
  qed
  from pos tr s m st show ?thesis by blast
qed

theorem flat_history_percentages_witness: "price_range ([10, 10, 10, 10, 10] @ [10]) = Inr 0
  \<and> (\<exists>pa tr. calculate_price_analysis 10 [10, 10, 10, 10, 10] = Inr pa
    \<and> from_min_percent pa = 0 \<and> from_max_percent pa = 0
    \<and> calculate_trend_analysis ([10, 10, 10, 10, 10] @ [10]) = Inr tr \<and> trend_strength tr = 0)"
proof -
  have h: "price_range ([10, 10, 10, 10, 10] @ [10]) = Inr 0"
    by (simp add: price_range_def py_max_def py_min_def)
  from flat_history_percentages [OF h] h show ?thesis by blast
qed


text \<open>
  C8: the ranking of a run lists the analysed entities in descending order of
  priority score; it is a rearrangement of the entries of \<open>commerce_analysis\<close>, the
  entries of any one score keep the order they have there, and that order is the
  ascending order of the entity ids.
\<close>

theorem ranking_descending_stable:
  "\<exists>items. commerce_analysis sorted_commerce_ids cd h = Inr items
     \<and> run_ranking cd h = Inr (ranking items)
     \<and> mset (ranking items) = mset items
     \<and> sorted_wrt (\<lambda>a b. entry_priority_score (snd a) \<ge> entry_priority_score (snd b))
         (ranking items)
     \<and> (\<forall>k. filter (\<lambda>x. entry_priority_score (snd x) = k) (ranking items)
            = filter (\<lambda>x. entry_priority_score (snd x) = k) items)
     \<and> (\<forall>k. sorted_wrt (<)
            (map fst (filter (\<lambda>x. entry_priority_score (snd x) = k) (ranking items))))"
proof -
  have sub: "set sorted_commerce_ids \<subseteq> fst ` set COMMERCE_MAP"
    by (simp add: sorted_commerce_ids_def)
  obtain items where it: "commerce_analysis sorted_commerce_ids cd h = Inr items"
    and ks: "map fst items = filter (\<lambda>c. cd c \<noteq> None) sorted_commerce_ids"
    using commerce_analysis_total [OF sub] by blast
  have "sorted_wrt (<) (map fst items)"
    unfolding ks sorted_commerce_ids_eq by (rule sorted_wrt_filter) simp
  then have asc: "sorted_wrt (\<lambda>x y. fst x < fst y) items"
    by (simp add: sorted_wrt_map)
  have ties: "sorted_wrt (<)
      (map fst (filter (\<lambda>x. entry_priority_score (snd x) = k) (ranking items)))" for k
    unfolding ranking_stable sorted_wrt_map using asc by (rule sorted_wrt_filter)
  have rr: "run_ranking cd h = Inr (ranking items)"
    by (simp add: run_ranking_def it)
  from it rr ranking_mset ranking_sorted ranking_stable ties show ?thesis by blast
qed


text \<open>
  C9: the number of stars, \<open>round(score / 2)\<close> clamped to \<open>[1, 5]\<close>, is an integer between
  1 and 5, the star string has that many stars, and the number does not decrease when
  the score grows.
\<close>

theorem stars_range_monotone:
  assumes "s \<le> t"
  shows "1 \<le> stars_count s \<and> stars_count s \<le> 5
    \<and> length (stars_of s) = nat (stars_count s)
    \<and> stars_count s \<le> stars_count t"
proof -
  have a: "1 \<le> stars_count s" "stars_count s \<le> 5"
    by (simp_all add: stars_count_def)
  have b: "length (stars_of s) = nat (stars_count s)"
    by (simp add: stars_of_def E_star_def length_concat sum_list_replicate)
  from assms have "s / 2 \<le> t / 2" by simp
  then have "py_round (s / 2) \<le> py_round (t / 2)" by (rule py_round_mono)
  then have c: "stars_count s \<le> stars_count t" by (simp add: stars_count_def)
  from a b c show ?thesis by blast
qed

theorem stars_range_monotone_witness:
  "(3::real) \<le> 5 \<and> 1 \<le> stars_count 3 \<and> stars_count 3 \<le> 5
    \<and> length (stars_of 3) = nat (stars_count 3) \<and> stars_count 3 \<le> stars_count 5"
  using stars_range_monotone [of 3 5] by simp

text \<open>
  C10: with an empty history the pipeline returns the percentile 50 and the
  insufficient-data trend, and the advice computed from them has direction \<open>- 2\<close>,
  trend adjustment \<open>- 2\<close>, priority score exactly 2, and the recommendation and action of
  the bucket \<open>score \<ge> 2.0\<close> (advise sell, reduce position), not those of the watch bucket.
\<close>

theorem empty_history_pipeline: "\<exists>pa tr adv. analyse_entity cur [] = Inr (pa, tr, adv) \<and> percentile pa = 50
   \<and> mid_trend tr = L_insufficient
   \<and> trend_direction adv = - 2 \<and> trend_adjustment adv = - 2 \<and> priority_score adv = 2
   \<and> advice adv = E_wings @ A_advise_sell
   \<and> action_desc adv = X_reduce \<and> advice adv \<noteq> E_eyes @ A_watch"
proof -
  define tr where "tr = \<lparr>short_trend = L_insufficient, mid_trend = L_insufficient,
                trend_strength = 0, trend_description = L_insufficient,
                short_slope = 0, mid_slope = 0, prices = [cur]\<rparr>"
  define adv where "adv = calculate_investment_advice 50 tr"
  have t: "calculate_trend_analysis ([] @ [cur]) = Inr tr"
    by (simp add: calculate_trend_analysis_def tr_def)
  have e: "analyse_entity cur [] = Inr (\<lparr>avg = cur, min_price = cur, max_price = cur,
           from_min_points = 0, from_min_percent = 0,
           from_max_points = 0, from_max_percent = 0,
           percentile = 50, sample_size = 0\<rparr>, tr, adv)"
    unfolding analyse_entity_def calculate_price_analysis_empty t adv_def by simp
  have d: "trend_direction adv = - 2"
    by (simp add: adv_def advice_trend_direction tr_def direction_of_insufficient)
  have a: "trend_adjustment adv = - 2"
    by (simp add: adv_def advice_trend_adjustment tr_def direction_of_insufficient
        is_reversing_up_def is_reversing_down_def no_reversal_in_insufficient
        base_adjustment_mid_fall reversal_override_def)
  have ps: "position_score adv = 5"
    by (simp add: adv_def advice_position_score)
  have p: "priority_score adv = 2"
    unfolding adv_def advice_priority_score
    unfolding adv_def [symmetric] a ps
    by (simp add: final_score_internal_def score_display_def)
  have ad: "advice adv = E_wings @ A_advise_sell"
    unfolding adv_def advice_advice unfolding adv_def [symmetric] p
    by (simp add: advice_of_def)
  have ac: "action_desc adv = X_reduce"
    unfolding adv_def advice_action_desc unfolding adv_def [symmetric] p
    by (simp add: advice_of_def)
  have ne: "E_wings @ A_advise_sell \<noteq> E_eyes @ A_watch"
    by (simp add: label_defs)
  show ?thesis
    using e d a p ad ac ne by (simp add: tr_def)
qed


end
